theory Spec2Isabelle
  imports Main "HOL-Library.AList"
begin

unbundle bit_operations_syntax

section \<open>The sysfs GPIO controller (sysfs/gpio.py)\<close>

text \<open>
  A shallow embedding of the module \<^verbatim>\<open>sysfs/gpio.py\<close>: the class \<^verbatim>\<open>Pin\<close> and the
  singleton \<^verbatim>\<open>Controller\<close>. Every method is a function from the world before the call
  to the outcome of the call (a raised exception or a returned value) together with the
  world after it, so that what an exception leaves behind can be stated.

  What lies outside the module is a parameter and not a definition: the kernel behind the
  sysfs files and the user's callbacks answer through the record \<open>environment\<close>, and each
  answer may depend on everything the module has done so far. A callback may call back
  into the controller while it runs. The calls to the logger are left out, and so is the
  background thread \<^verbatim>\<open>_poll_queue_loop\<close>, which only hands the batches of events to
  \<^verbatim>\<open>_poll_queue_event\<close>.
\<close>

subsection \<open>Constants of the module\<close>

text \<open>
  A direction is a Python string. The module compares directions by content
  (\<^verbatim>\<open>in DIRECTIONS\<close>, \<^verbatim>\<open>== INPUT\<close>) in some places and by object identity
  (\<^verbatim>\<open>is INPUT\<close>) in others, so a string value is either one of the two objects bound to
  the module constants \<^verbatim>\<open>INPUT\<close> and \<^verbatim>\<open>OUTPUT\<close>, or some other string object, whose
  content may still be \<^verbatim>\<open>'in'\<close> or \<^verbatim>\<open>'out'\<close>.
\<close>

datatype pystr = INPUT | OUTPUT | Str string

fun chars :: "pystr \<Rightarrow> string" where
  "chars INPUT = ''in''"
| "chars OUTPUT = ''out''"
| "chars (Str s) = s"

definition RISING :: string where "RISING = ''rising''"
definition FALLING :: string where "FALLING = ''falling''"
definition BOTH :: string where "BOTH = ''both''"

definition ACTIVE_LOW_ON :: int where "ACTIVE_LOW_ON = 1"
definition ACTIVE_LOW_OFF :: int where "ACTIVE_LOW_OFF = 0"

definition DIRECTIONS :: "pystr list" where "DIRECTIONS = [INPUT, OUTPUT]"
definition EDGES :: "string list" where "EDGES = [RISING, FALLING, BOTH]"
definition ACTIVE_LOW_MODES :: "int list" where
  "ACTIVE_LOW_MODES = [ACTIVE_LOW_ON, ACTIVE_LOW_OFF]"

definition SYSFS_GPIO_VALUE_LOW :: string where "SYSFS_GPIO_VALUE_LOW = ''0''"
definition SYSFS_GPIO_VALUE_HIGH :: string where "SYSFS_GPIO_VALUE_HIGH = ''1''"

text \<open>The two event bits of \<^verbatim>\<open>select\<close> on Linux that the module uses.\<close>

definition EPOLLPRI :: int where "EPOLLPRI = 2"
definition EPOLLET :: int where "EPOLLET = 2147483648"

text \<open>The error numbers with which \<^verbatim>\<open>epoll\<close> refuses a registration.\<close>

definition ENOENT :: nat where "ENOENT = 2"
definition EEXIST :: nat where "EEXIST = 17"

text \<open>
  The sysfs paths; a path with a number stands for the path constant of that name with
  the pin number filled in, as in \<^verbatim>\<open>SYSFS_GPIO_VALUE_PATH % number\<close>.
\<close>

datatype path =
    SYSFS_EXPORT_PATH
  | SYSFS_UNEXPORT_PATH
  | SYSFS_GPIO_PATH int
  | SYSFS_GPIO_DIRECTION_PATH int
  | SYSFS_GPIO_EDGE_PATH int
  | SYSFS_GPIO_VALUE_PATH int
  | SYSFS_GPIO_ACTIVE_LOW_PATH int

text \<open>
  What is written to a file: a string as it is, or the decimal text of an integer
  (\<^verbatim>\<open>'%d' % number\<close>, \<^verbatim>\<open>str(active_low)\<close>).
\<close>

datatype content = Chars string | Decimal int

subsection \<open>Exceptions\<close>

text \<open>
  The module raises plain \<^verbatim>\<open>Exception\<close> objects that differ in their message; each
  message is one constructor. The others are the exceptions of the interpreter and of the
  user's callbacks.
  \<^item> \<open>PinNumberOutOfRange\<close>: \<^verbatim>\<open>Exception("Pin number out of range")\<close>
  \<^item> \<open>PinAlreadyAllocated\<close>: \<^verbatim>\<open>Exception("Pin already allocated")\<close>
  \<^item> \<open>PinDirectionNotIn d\<close>: \<^verbatim>\<open>Exception("Pin direction %s not in %s" % (d, DIRECTIONS))\<close>
  \<^item> \<open>PinEdgeNotIn e\<close>: \<^verbatim>\<open>Exception("Pin edge %s not in %s" % (e, EDGES))\<close>
  \<^item> \<open>MustSupplyEdge\<close>: \<^verbatim>\<open>Exception('You must supply a edge to trigger callback on')\<close>
  \<^item> \<open>MustSupplyActiveLow\<close>:
    \<^verbatim>\<open>Exception('You must supply a value for active_low which is either 0 or 1.')\<close>
  \<^item> \<open>PinNotAllocated n\<close>: \<^verbatim>\<open>Exception('Pin %d not allocated' % n)\<close>
  \<^item> \<open>KeyError n\<close>: the lookup or the deletion of a key that the dictionary does not have
  \<^item> \<open>IOError errno\<close>: raised by a file or by \<^verbatim>\<open>epoll\<close>
  \<^item> \<open>ValueError\<close>: raised by \<^verbatim>\<open>int\<close> on a text that is not a number
  \<^item> \<open>RuntimeError\<close>: raised by the iterator of a dictionary that was changed under it
  \<^item> \<open>UserError k\<close>: an exception raised by the user's callback
\<close>

datatype error =
    PinNumberOutOfRange
  | PinAlreadyAllocated
  | PinDirectionNotIn pystr
  | PinEdgeNotIn "string option"
  | MustSupplyEdge
  | MustSupplyActiveLow
  | PinNotAllocated int
  | KeyError int
  | IOError nat
  | ValueError
  | RuntimeError
  | UserError nat

subsection \<open>The world: the controller, the poller and the environment\<close>

text \<open>
  The effects the module has on its surroundings, in the order it issues them. An effect
  is recorded when it is attempted, whether or not the environment lets it succeed.
  \<^item> \<open>FileWrite p t\<close>: \<^verbatim>\<open>with open(p, 'w') as f: f.write(t)\<close>
  \<^item> \<open>FileOpen p\<close>: \<^verbatim>\<open>open(p, 'r+')\<close>
  \<^item> \<open>FdWrite fd s\<close>: \<^verbatim>\<open>write(s)\<close> and \<^verbatim>\<open>seek(0)\<close> on the open file with number \<open>fd\<close>
  \<^item> \<open>FdRead fd\<close>: \<^verbatim>\<open>read()\<close> and \<^verbatim>\<open>seek(0)\<close> on the open file with number \<open>fd\<close>
  \<^item> \<open>EpollRegister fd mask\<close>, \<open>EpollUnregister fd\<close>: the two calls on the epoll object
  \<^item> \<open>Call f n v\<close>: the call \<^verbatim>\<open>f(n, v)\<close> of the user's callback \<open>f\<close>
\<close>

datatype effect =
    FileWrite path content
  | FileOpen path
  | FdWrite int string
  | FdRead int
  | EpollRegister int int
  | EpollUnregister int
  | Call nat int int

text \<open>
  A \<^verbatim>\<open>Pin\<close> object. A callback is \<^verbatim>\<open>None\<close> or a function, named by a number; the
  file object \<^verbatim>\<open>_fd\<close> is known by the number of its descriptor.
\<close>

record pin =
  pin_number :: int
  pin_direction :: pystr
  pin_callback :: "nat option"
  pin_active_low :: int
  pin_fd :: int

text \<open>
  The calls of \<^verbatim>\<open>alloc_pin\<close>, \<^verbatim>\<open>dealloc_pin\<close> and \<^verbatim>\<open>stop\<close>, as a host or a callback
  makes them.
\<close>

datatype registry_op =
    Alloc int pystr "nat option" "string option" int
  | Dealloc int
  | Stop

text \<open>
  The environment answers each request from the effects issued before it. \<open>None\<close> and
  \<open>Inr\<close> are success, \<open>Some e\<close> and \<open>Inl e\<close> raise \<open>e\<close>.
  \<^item> \<open>isdir\<close>: \<^verbatim>\<open>os.path.isdir\<close>
  \<^item> \<open>file_write\<close>: opening a file for writing, writing a text and closing it
  \<^item> \<open>file_open\<close>: \<^verbatim>\<open>open(path, 'r+')\<close>; the answer is the number of the new descriptor
  \<^item> \<open>fd_write\<close>: writing to an open file and rewinding it
  \<^item> \<open>fd_read_int\<close>: reading an open file, rewinding it, and \<^verbatim>\<open>int\<close> of what was read
  \<^item> \<open>call\<close>: how the callback ends when called with two arguments: it returns or raises
  \<^item> \<open>reenters\<close>: the registry operations that the callback makes on the controller
    before it ends, in their order; what such an operation raises is the callback's to
    handle
  \<^item> \<open>iter_next\<close>: what \<^verbatim>\<open>next\<close> answers on an iterator over the values of a
    dictionary, now with the given entries, that has been changed under the iterator and
    has the size it had: the answer depends on the layout of the interpreter's hash table
\<close>

record environment =
  isdir :: "effect list \<Rightarrow> path \<Rightarrow> bool"
  file_write :: "effect list \<Rightarrow> path \<Rightarrow> content \<Rightarrow> error option"
  file_open :: "effect list \<Rightarrow> path \<Rightarrow> error + int"
  fd_write :: "effect list \<Rightarrow> int \<Rightarrow> string \<Rightarrow> error option"
  fd_read_int :: "effect list \<Rightarrow> int \<Rightarrow> error + int"
  call :: "effect list \<Rightarrow> nat \<Rightarrow> int \<Rightarrow> int \<Rightarrow> error option"
  reenters :: "effect list \<Rightarrow> nat \<Rightarrow> int \<Rightarrow> int \<Rightarrow> registry_op list"
  iter_next :: "effect list \<Rightarrow> (int \<times> pin) list \<Rightarrow> nat \<Rightarrow> error + pin option"

text \<open>
  The fields of the \<^verbatim>\<open>Controller\<close> instance, the effects issued so far and the
  environment. \<open>allocated_pins\<close> is the dictionary \<^verbatim>\<open>_allocated_pins\<close> in the order of
  insertion, which is the order in which its values are iterated. \<open>mutations\<close> counts the
  insertions of new keys and the deletions that the dictionary has seen, so that an
  iterator can tell whether the dictionary was changed under it. \<open>poll_queue\<close> is the
  registration table of the epoll object: descriptor to event mask.
\<close>

record world =
  available_pins :: "int list"
  allocated_pins :: "(int \<times> pin) list"
  mutations :: nat
  running :: bool
  poll_queue :: "int \<rightharpoonup> int"
  effects :: "effect list"
  env :: environment

subsection \<open>Statements that may raise\<close>

type_synonym 'a prog = "world \<Rightarrow> (error + 'a) \<times> world"

definition ok :: "'a \<Rightarrow> 'a prog" where
  "ok x w = (Inr x, w)"

definition raise :: "error \<Rightarrow> 'a prog" where
  "raise e w = (Inl e, w)"

text \<open>One statement after another: an exception of the first skips the second.\<close>

definition then_do :: "'a prog \<Rightarrow> ('a \<Rightarrow> 'b prog) \<Rightarrow> 'b prog" where
  "then_do m f w = (case m w of (Inl e, w') \<Rightarrow> (Inl e, w') | (Inr x, w') \<Rightarrow> f x w')"

definition did :: "effect \<Rightarrow> world \<Rightarrow> world" where
  "did e w = w\<lparr>effects := effects w @ [e]\<rparr>"

subsection \<open>Files, the epoll object and the dictionary\<close>

definition write_file :: "path \<Rightarrow> content \<Rightarrow> unit prog" where
  "write_file p t w =
     (case file_write (env w) (effects w) p t of
        Some e \<Rightarrow> (Inl e, did (FileWrite p t) w)
      | None \<Rightarrow> (Inr (), did (FileWrite p t) w))"

definition open_file :: "path \<Rightarrow> int prog" where
  "open_file p w =
     (case file_open (env w) (effects w) p of
        Inl e \<Rightarrow> (Inl e, did (FileOpen p) w)
      | Inr fd \<Rightarrow> (Inr fd, did (FileOpen p) w))"

definition write_fd :: "int \<Rightarrow> string \<Rightarrow> unit prog" where
  "write_fd fd s w =
     (case fd_write (env w) (effects w) fd s of
        Some e \<Rightarrow> (Inl e, did (FdWrite fd s) w)
      | None \<Rightarrow> (Inr (), did (FdWrite fd s) w))"

definition read_fd_int :: "int \<Rightarrow> int prog" where
  "read_fd_int fd w =
     (case fd_read_int (env w) (effects w) fd of
        Inl e \<Rightarrow> (Inl e, did (FdRead fd) w)
      | Inr v \<Rightarrow> (Inr v, did (FdRead fd) w))"

text \<open>
  \<^verbatim>\<open>epoll.register\<close> refuses a descriptor that is registered (\<^verbatim>\<open>EEXIST\<close>), and
  \<^verbatim>\<open>epoll.unregister\<close> one that is not (\<^verbatim>\<open>ENOENT\<close>).
\<close>

definition epoll_register :: "int \<Rightarrow> int \<Rightarrow> unit prog" where
  "epoll_register fd eventmask w =
     (if poll_queue w fd \<noteq> None then (Inl (IOError EEXIST), did (EpollRegister fd eventmask) w)
      else (Inr (), did (EpollRegister fd eventmask) (w\<lparr>poll_queue := (poll_queue w)(fd \<mapsto> eventmask)\<rparr>)))"

definition epoll_unregister :: "int \<Rightarrow> unit prog" where
  "epoll_unregister fd w =
     (if poll_queue w fd = None then (Inl (IOError ENOENT), did (EpollUnregister fd) w)
      else (Inr (), did (EpollUnregister fd) (w\<lparr>poll_queue := (poll_queue w)(fd := None)\<rparr>)))"

text \<open>\<^verbatim>\<open>number in self._allocated_pins\<close>\<close>

definition is_allocated :: "world \<Rightarrow> int \<Rightarrow> bool" where
  "is_allocated w number = (map_of (allocated_pins w) number \<noteq> None)"

text \<open>\<^verbatim>\<open>self._allocated_pins[number]\<close>\<close>

definition getitem :: "int \<Rightarrow> pin prog" where
  "getitem number w =
     (case map_of (allocated_pins w) number of
        None \<Rightarrow> (Inl (KeyError number), w)
      | Some p \<Rightarrow> (Inr p, w))"

text \<open>\<^verbatim>\<open>self._allocated_pins[number] = pin\<close>\<close>

definition setitem :: "int \<Rightarrow> pin \<Rightarrow> unit prog" where
  "setitem number p w =
     (Inr (), w\<lparr>allocated_pins := AList.update number p (allocated_pins w),
               mutations := (if map_of (allocated_pins w) number = None
                             then Suc (mutations w) else mutations w)\<rparr>)"

text \<open>\<^verbatim>\<open>del self._allocated_pins[number]\<close>\<close>

definition delitem :: "int \<Rightarrow> unit prog" where
  "delitem number w =
     (if map_of (allocated_pins w) number = None then (Inl (KeyError number), w)
      else (Inr (), w\<lparr>allocated_pins := AList.delete number (allocated_pins w),
                     mutations := Suc (mutations w)\<rparr>))"

text \<open>The values of the dictionary, in the order of iteration.\<close>

definition values_of :: "world \<Rightarrow> pin list" where
  "values_of w = map snd (allocated_pins w)"

text \<open>\<^verbatim>\<open>if cond: raise e\<close>\<close>

definition raise_if :: "(world \<Rightarrow> bool) \<Rightarrow> error \<Rightarrow> unit prog" where
  "raise_if cond e w = (if cond w then (Inl e, w) else (Inr (), w))"

subsection \<open>class Pin\<close>

text \<open>The truth value of the argument \<^verbatim>\<open>edge\<close>: \<^verbatim>\<open>None\<close> and the empty string are false.\<close>

definition truthy :: "string option \<Rightarrow> bool" where
  "truthy edge = (case edge of None \<Rightarrow> False | Some e \<Rightarrow> e \<noteq> [])"

text \<open>
  \<^verbatim>\<open>Pin.__init__\<close>. The four fields are assigned first, which no one can observe when
  the constructor raises; then the value file is opened, the callback is checked against
  the edge, and the direction, the edge and the polarity are written.
\<close>

definition Pin_init :: "int \<Rightarrow> pystr \<Rightarrow> nat option \<Rightarrow> string option \<Rightarrow> int \<Rightarrow> pin prog" where
  "Pin_init number direction callback edge active_low =
     then_do (open_file (SYSFS_GPIO_VALUE_PATH number)) (\<lambda>fd.
     if callback \<noteq> None \<and> \<not> truthy edge then raise MustSupplyEdge
     else
     then_do (write_file (SYSFS_GPIO_DIRECTION_PATH number) (Chars (chars direction))) (\<lambda>_.
     then_do (case edge of
                Some e \<Rightarrow> if e \<noteq> [] then write_file (SYSFS_GPIO_EDGE_PATH number) (Chars e)
                          else ok ()
              | None \<Rightarrow> ok ()) (\<lambda>_.
     then_do (if active_low \<noteq> 0
              then (if active_low \<notin> set ACTIVE_LOW_MODES then raise MustSupplyActiveLow
                    else write_file (SYSFS_GPIO_ACTIVE_LOW_PATH number) (Decimal active_low))
              else ok ()) (\<lambda>_.
     ok \<lparr>pin_number = number, pin_direction = direction, pin_callback = callback,
         pin_active_low = active_low, pin_fd = fd\<rparr>))))"

definition Pin_set :: "pin \<Rightarrow> unit prog" where
  "Pin_set self = write_fd (pin_fd self) SYSFS_GPIO_VALUE_HIGH"

definition Pin_reset :: "pin \<Rightarrow> unit prog" where
  "Pin_reset self = write_fd (pin_fd self) SYSFS_GPIO_VALUE_LOW"

definition Pin_read :: "pin \<Rightarrow> int prog" where
  "Pin_read self = read_fd_int (pin_fd self)"

definition Pin_fileno :: "pin \<Rightarrow> int" where
  "Pin_fileno self = pin_fd self"

subsection \<open>class Controller\<close>

definition check_pin_already_exported :: "int \<Rightarrow> bool prog" where
  "check_pin_already_exported number w =
     (Inr (isdir (env w) (effects w) (SYSFS_GPIO_PATH number)), w)"

definition check_pin_validity :: "int \<Rightarrow> unit prog" where
  "check_pin_validity number =
     then_do (raise_if (\<lambda>w. number \<notin> set (available_pins w)) PinNumberOutOfRange) (\<lambda>_.
     raise_if (\<lambda>w. is_allocated w number) PinAlreadyAllocated)"

definition poll_queue_register_pin :: "pin \<Rightarrow> unit prog" where
  "poll_queue_register_pin p = epoll_register (Pin_fileno p) (EPOLLPRI OR EPOLLET)"

definition poll_queue_unregister_pin :: "pin \<Rightarrow> unit prog" where
  "poll_queue_unregister_pin p = epoll_unregister (Pin_fileno p)"

text \<open>\<^verbatim>\<open>direction in DIRECTIONS\<close> and \<^verbatim>\<open>edge in EDGES\<close> compare by content.\<close>

definition in_DIRECTIONS :: "pystr \<Rightarrow> bool" where
  "in_DIRECTIONS direction = (chars direction \<in> set (map chars DIRECTIONS))"

definition in_EDGES :: "string option \<Rightarrow> bool" where
  "in_EDGES edge = (case edge of None \<Rightarrow> False | Some e \<Rightarrow> e \<in> set EDGES)"

definition alloc_pin :: "int \<Rightarrow> pystr \<Rightarrow> nat option \<Rightarrow> string option \<Rightarrow> int \<Rightarrow> pin prog" where
  "alloc_pin number direction callback edge active_low =
     then_do (check_pin_validity number) (\<lambda>_.
     if \<not> in_DIRECTIONS direction then raise (PinDirectionNotIn direction)
     else if callback \<noteq> None \<and> \<not> in_EDGES edge then raise (PinEdgeNotIn edge)
     else
     then_do (check_pin_already_exported number) (\<lambda>exported.
     then_do (if \<not> exported then write_file SYSFS_EXPORT_PATH (Decimal number) else ok ()) (\<lambda>_.
     then_do (Pin_init number direction callback edge active_low) (\<lambda>p.
     then_do (if direction = INPUT then poll_queue_register_pin p else ok ()) (\<lambda>_.
     then_do (setitem number p) (\<lambda>_.
     ok p))))))"

definition dealloc_pin :: "int \<Rightarrow> unit prog" where
  "dealloc_pin number =
     then_do (raise_if (\<lambda>w. \<not> is_allocated w number) (PinNotAllocated number)) (\<lambda>_.
     then_do (write_file SYSFS_UNEXPORT_PATH (Decimal number)) (\<lambda>_.
     then_do (getitem number) (\<lambda>p.
     then_do (if pin_direction p = INPUT then poll_queue_unregister_pin p else ok ()) (\<lambda>_.
     delitem number))))"

definition get_pin :: "int \<Rightarrow> pin prog" where
  "get_pin number = getitem number"

definition set_pin :: "int \<Rightarrow> unit prog" where
  "set_pin number =
     then_do (raise_if (\<lambda>w. \<not> is_allocated w number) (PinNotAllocated number)) (\<lambda>_.
     then_do (getitem number) Pin_set)"

definition reset_pin :: "int \<Rightarrow> unit prog" where
  "reset_pin number =
     then_do (raise_if (\<lambda>w. \<not> is_allocated w number) (PinNotAllocated number)) (\<lambda>_.
     then_do (getitem number) Pin_reset)"

definition get_pin_state :: "int \<Rightarrow> bool prog" where
  "get_pin_state number =
     then_do (raise_if (\<lambda>w. \<not> is_allocated w number) (PinNotAllocated number)) (\<lambda>_.
     then_do (getitem number) (\<lambda>p.
     then_do (if chars (pin_direction p) = chars INPUT
              then poll_queue_unregister_pin p else ok ()) (\<lambda>_.
     then_do (Pin_read p) (\<lambda>val.
     then_do (if chars (pin_direction p) = chars INPUT
              then poll_queue_register_pin p else ok ()) (\<lambda>_.
     if val \<le> 0 then ok False else ok True)))))"

text \<open>
  \<^verbatim>\<open>stop\<close>: the loop runs over a copy of the values taken before the first
  deallocation.
\<close>

primrec stop_loop :: "pin list \<Rightarrow> unit prog" where
  "stop_loop [] = ok ()"
| "stop_loop (p # ps) = then_do (dealloc_pin (pin_number p)) (\<lambda>_. stop_loop ps)"

definition stop :: "unit prog" where
  "stop w = stop_loop (values_of w) (w\<lparr>running := False\<rparr>)"

subsection \<open>Callbacks and their dispatch\<close>

text \<open>The world that a registry operation leaves behind, whether it returns or raises.\<close>

fun after :: "registry_op \<Rightarrow> world \<Rightarrow> world" where
  "after (Alloc number direction callback edge active_low) w =
     snd (alloc_pin number direction callback edge active_low w)"
| "after (Dealloc number) w = snd (dealloc_pin number w)"
| "after Stop w = snd (stop w)"

text \<open>
  The call \<^verbatim>\<open>f(n, v)\<close> of a callback: the call is recorded, the callback makes its
  registry operations on the controller, and then it returns or raises. What else a
  callback does, such as its own reads and writes, is not recorded.
\<close>

definition call_user :: "nat \<Rightarrow> int \<Rightarrow> int \<Rightarrow> unit prog" where
  "call_user f n v w =
     (let w' = foldl (\<lambda>w1 op. after op w1) (did (Call f n v) w)
                 (reenters (env w) (effects w) f n v)
      in case call (env w) (effects w) f n v of
           Some e \<Rightarrow> (Inl e, w')
         | None \<Rightarrow> (Inr (), w'))"

text \<open>\<^verbatim>\<open>Pin.changed\<close>: the callback is called when there is one; nothing guards the call.\<close>

definition Pin_changed :: "pin \<Rightarrow> int \<Rightarrow> unit prog" where
  "Pin_changed self state =
     (case pin_callback self of
        Some f \<Rightarrow> call_user f (pin_number self) state
      | None \<Rightarrow> ok ())"

text \<open>
  \<^verbatim>\<open>next\<close> on the iterator that \<^verbatim>\<open>for pin in values\<close> runs over the values of the
  dictionary itself, not of a copy. The iterator knows the size and the count of mutations
  of the dictionary at the time the loop began, and its own position. When the size is no
  longer the same it raises \<^verbatim>\<open>RuntimeError\<close>. When the dictionary has not been changed
  it yields the value at its position, or ends. When the dictionary has been changed and
  has its old size, the environment answers.
\<close>

definition values_next :: "nat \<Rightarrow> nat \<Rightarrow> nat \<Rightarrow> pin option prog" where
  "values_next used0 mutations0 pos w =
     (if length (allocated_pins w) \<noteq> used0 then (Inl RuntimeError, w)
      else if mutations w = mutations0
      then (Inr (if pos < length (allocated_pins w)
                 then Some (snd (allocated_pins w ! pos)) else None), w)
      else (case iter_next (env w) (effects w) (allocated_pins w) pos of
              Inl e \<Rightarrow> (Inl e, w)
            | Inr nxt \<Rightarrow> (Inr nxt, w)))"

text \<open>
  The inner loop of \<^verbatim>\<open>_poll_queue_event\<close>,
  \<^verbatim>\<open>for pin in values: if pin.fileno() == fd: pin.changed(pin.read())\<close>.
  The first argument is the number of values that the iterator may still yield: as in
  CPython from 3.8 on, an iterator that finds one more value than the dictionary had when
  the loop began raises \<^verbatim>\<open>RuntimeError\<close>.
\<close>

primrec poll_queue_event_pins :: "nat \<Rightarrow> nat \<Rightarrow> nat \<Rightarrow> nat \<Rightarrow> int \<Rightarrow> unit prog" where
  "poll_queue_event_pins 0 used0 mutations0 pos fd =
     then_do (values_next used0 mutations0 pos) (\<lambda>nxt.
     case nxt of
       None \<Rightarrow> ok ()
     | Some p \<Rightarrow> raise RuntimeError)"
| "poll_queue_event_pins (Suc left) used0 mutations0 pos fd =
     then_do (values_next used0 mutations0 pos) (\<lambda>nxt.
     case nxt of
       None \<Rightarrow> ok ()
     | Some p \<Rightarrow>
         then_do (if Pin_fileno p = fd then then_do (Pin_read p) (Pin_changed p)
                  else ok ()) (\<lambda>_.
         poll_queue_event_pins left used0 mutations0 (Suc pos) fd))"

text \<open>
  \<^verbatim>\<open>_poll_queue_event\<close>: an event without one of the two bits is skipped; for any other
  event a new iterator over the values of the dictionary is made and the inner loop runs.
\<close>

primrec poll_queue_event :: "(int \<times> int) list \<Rightarrow> unit prog" where
  "poll_queue_event [] = ok ()"
| "poll_queue_event (ev # events) =
     (if snd ev AND (EPOLLPRI OR EPOLLET) = 0 then poll_queue_event events
      else then_do (\<lambda>w. poll_queue_event_pins (length (allocated_pins w))
                          (length (allocated_pins w)) (mutations w) 0 (fst ev) w) (\<lambda>_.
           poll_queue_event events))"

text \<open>
  \<^verbatim>\<open>Controller.__new__\<close>: the instance as it is created, before the host assigns
  \<^verbatim>\<open>available_pins\<close>.
\<close>

definition Controller_new :: "environment \<Rightarrow> world" where
  "Controller_new e =
     \<lparr>available_pins = [], allocated_pins = [], mutations = 0, running = True,
      poll_queue = Map.empty, effects = [], env = e\<rparr>"

section \<open>Notions used to state the properties\<close>

subsection \<open>Triples\<close>

text \<open>
  \<open>hoare P m Q E\<close>: started in a world where \<open>P\<close> holds, the statement \<open>m\<close> either returns
  \<open>x\<close> in a world where \<open>Q x\<close> holds or raises \<open>e\<close> in a world where \<open>E e\<close> holds.
  \<open>keeps_registry m\<close>: \<open>m\<close> never changes the dictionary of allocated pins.
\<close>

definition hoare ::
  "(world \<Rightarrow> bool) \<Rightarrow> 'a prog \<Rightarrow> ('a \<Rightarrow> world \<Rightarrow> bool) \<Rightarrow> (error \<Rightarrow> world \<Rightarrow> bool) \<Rightarrow> bool" where
  "hoare P m Q E =
     (\<forall>w. P w \<longrightarrow> (case m w of (Inl e, w') \<Rightarrow> E e w' | (Inr x, w') \<Rightarrow> Q x w'))"

definition keeps_registry :: "'a prog \<Rightarrow> bool" where
  "keeps_registry m = (\<forall>w. allocated_pins (snd (m w)) = allocated_pins w)"

subsection \<open>An environment that does not fail\<close>

text \<open>
  \<open>files_work w number\<close>: whatever has happened before, every write of a sysfs file
  succeeds, and opening the value file of pin \<open>number\<close> succeeds with a descriptor that the
  poller does not hold.
\<close>

definition files_work :: "world \<Rightarrow> int \<Rightarrow> bool" where
  "files_work w number =
     ((\<forall>h p t. file_write (env w) h p t = None) \<and>
      (\<forall>h. \<exists>fd. file_open (env w) h (SYSFS_GPIO_VALUE_PATH number) = Inr fd \<and>
                 poll_queue w fd = None))"

text \<open>
  \<open>undisturbed w\<close>: whatever has happened before, reading the value of an allocated pin
  yields an integer, and the callback of an allocated pin returns and makes no registry
  operation.
\<close>

definition undisturbed :: "world \<Rightarrow> bool" where
  "undisturbed w =
     (\<forall>h. \<forall>p \<in> set (values_of w).
        (\<exists>v. fd_read_int (env w) h (Pin_fileno p) = Inr v) \<and>
        (\<forall>f v. pin_callback p = Some f \<longrightarrow>
           call (env w) h f (pin_number p) v = None \<and>
           reenters (env w) h f (pin_number p) v = []))"

subsection \<open>What a batch of events is to cause\<close>

text \<open>
  The effects of one dispatch to the pin \<open>p\<close> after the effects \<open>h\<close>: one read of the pin's
  descriptor and, when the pin has a callback, one call of it with the pin's number and
  the value read.
\<close>

definition dispatch_effects :: "environment \<Rightarrow> effect list \<Rightarrow> pin \<Rightarrow> effect list" where
  "dispatch_effects e h p =
     FdRead (Pin_fileno p) #
       (case (fd_read_int e h (Pin_fileno p), pin_callback p) of
          (Inr v, Some f) \<Rightarrow> [Call f (pin_number p) v]
        | _ \<Rightarrow> [])"

text \<open>
  The effects that the dispatch of a batch is to add to the effects \<open>h\<close> issued before it:
  an event without one of the two bits adds nothing; an event with one of them adds one
  dispatch to the pin that holds the event's descriptor, and nothing when no pin holds it.
\<close>

fun dispatched ::
  "environment \<Rightarrow> pin list \<Rightarrow> effect list \<Rightarrow> (int \<times> int) list \<Rightarrow> effect list" where
  "dispatched e pins h [] = h"
| "dispatched e pins h ((fd, eventmask) # events) =
     (if eventmask AND (EPOLLPRI OR EPOLLET) = 0 then dispatched e pins h events
      else case find (\<lambda>p. Pin_fileno p = fd) pins of
             None \<Rightarrow> dispatched e pins h events
           | Some p \<Rightarrow> dispatched e pins (h @ dispatch_effects e h p) events)"

subsection \<open>Order of effects\<close>

text \<open>\<open>issued_before a b es\<close>: in \<open>es\<close>, some \<open>a\<close> comes before some \<open>b\<close>.\<close>

fun issued_before :: "effect \<Rightarrow> effect \<Rightarrow> effect list \<Rightarrow> bool" where
  "issued_before a b [] = False"
| "issued_before a b (e # es) = ((e = a \<and> b \<in> set es) \<or> issued_before a b es)"

subsection \<open>The invariant of the dictionary\<close>

definition keys_match :: "world \<Rightarrow> bool" where
  "keys_match w = (\<forall>n p. map_of (allocated_pins w) n = Some p \<longrightarrow> pin_number p = n)"

subsection \<open>Example boards\<close>

text \<open>
  An environment in which nothing fails: no pin is exported yet, the value file of pin \<open>n\<close>
  opens with descriptor \<open>100 + n\<close>, every pin reads 1, and callbacks return and leave the
  controller alone. In the second environment callback \<open>k\<close> raises its own exception. In
  the third a callback deallocates the pin it is called for.
\<close>

definition example_env :: environment where
  "example_env =
     \<lparr>isdir = (\<lambda>h p. False),
      file_write = (\<lambda>h p t. None),
      file_open = (\<lambda>h p. case p of SYSFS_GPIO_VALUE_PATH n \<Rightarrow> Inr (100 + n) | _ \<Rightarrow> Inr 3),
      fd_write = (\<lambda>h fd s. None),
      fd_read_int = (\<lambda>h fd. Inr 1),
      call = (\<lambda>h f n v. None),
      reenters = (\<lambda>h f n v. []),
      iter_next = (\<lambda>h al pos. Inr None)\<rparr>"

definition raising_env :: environment where
  "raising_env = example_env\<lparr>call := (\<lambda>h f n v. Some (UserError f))\<rparr>"

definition deallocating_env :: environment where
  "deallocating_env = example_env\<lparr>reenters := (\<lambda>h f n v. [Dealloc n])\<rparr>"

text \<open>
  A board with the pins 4, 17 and 27, on which pin 17 has been allocated as an input with
  callback 0 on both edges, and pin 4 as an output.
\<close>

definition pin17 :: pin where
  "pin17 = \<lparr>pin_number = 17, pin_direction = INPUT, pin_callback = Some 0,
            pin_active_low = 0, pin_fd = 117\<rparr>"

definition pin4 :: pin where
  "pin4 = \<lparr>pin_number = 4, pin_direction = OUTPUT, pin_callback = None,
           pin_active_low = 0, pin_fd = 104\<rparr>"

definition board :: "environment \<Rightarrow> world" where
  "board e =
     \<lparr>available_pins = [4, 17, 27],
      allocated_pins = [(17, pin17), (4, pin4)],
      mutations = 2,
      running = True,
      poll_queue = [117 \<mapsto> EPOLLPRI OR EPOLLET],
      effects = [],
      env = e\<rparr>"

text \<open>
  The same board with two inputs: pin 17 with callback 0, and pin 27 with callback 1 on
  the rising edge.
\<close>

definition pin27 :: pin where
  "pin27 = \<lparr>pin_number = 27, pin_direction = INPUT, pin_callback = Some 1,
            pin_active_low = 0, pin_fd = 127\<rparr>"

definition inputs_board :: "environment \<Rightarrow> world" where
  "inputs_board e =
     \<lparr>available_pins = [4, 17, 27],
      allocated_pins = [(17, pin17), (27, pin27)],
      mutations = 2,
      running = True,
      poll_queue = [117 \<mapsto> EPOLLPRI OR EPOLLET, 127 \<mapsto> EPOLLPRI OR EPOLLET],
      effects = [],
      env = e\<rparr>"

text \<open>
  A new controller with the pins 4, 17 and 27, and a direction that is a string with the
  content \<^verbatim>\<open>'in'\<close> but is not the object bound to \<^verbatim>\<open>INPUT\<close>, as a string read from a
  file or built at run time is.
\<close>

definition new_board :: world where
  "new_board = (Controller_new example_env)\<lparr>available_pins := [4, 17, 27]\<rparr>"

definition other_in :: pystr where
  "other_in = Str ''in''"

section \<open>Accessors on a number that is not allocated\<close>

lemma unallocated_accessors:
  assumes "\<not> is_allocated w n"
  shows "get_pin n w = (Inl (KeyError n), w)"
    and "set_pin n w = (Inl (PinNotAllocated n), w)"
    and "reset_pin n w = (Inl (PinNotAllocated n), w)"
    and "get_pin_state n w = (Inl (PinNotAllocated n), w)"
    and "dealloc_pin n w = (Inl (PinNotAllocated n), w)"
  using assms
  by (simp_all add: get_pin_def set_pin_def reset_pin_def get_pin_state_def dealloc_pin_def
      getitem_def then_do_def raise_if_def is_allocated_def)

text \<open>
  Claim C1: for every pin number that is not a key of the dictionary of allocated pins,
  each of \<^verbatim>\<open>get_pin\<close>, \<^verbatim>\<open>set_pin\<close>, \<^verbatim>\<open>reset_pin\<close>, \<^verbatim>\<open>get_pin_state\<close> and
  \<^verbatim>\<open>dealloc_pin\<close> fails with the error that the pin is not allocated.

  On a controller that has just been created, where no number is a key, four of the five
  raise \<^verbatim>\<open>Exception('Pin %d not allocated')\<close> and leave the world as it was.
  \<^verbatim>\<open>get_pin\<close> has no such guard: it raises the \<^verbatim>\<open>KeyError\<close> of the dictionary
  lookup.
\<close>

theorem get_pin_unallocated_raises_KeyError:
  "get_pin n (Controller_new e) = (Inl (KeyError n), Controller_new e) \<and>
   set_pin n (Controller_new e) = (Inl (PinNotAllocated n), Controller_new e) \<and>
   reset_pin n (Controller_new e) = (Inl (PinNotAllocated n), Controller_new e) \<and>
   get_pin_state n (Controller_new e) = (Inl (PinNotAllocated n), Controller_new e) \<and>
   dealloc_pin n (Controller_new e) = (Inl (PinNotAllocated n), Controller_new e)"
  by (simp add: get_pin_def set_pin_def reset_pin_def get_pin_state_def dealloc_pin_def
      getitem_def then_do_def raise_if_def is_allocated_def Controller_new_def)

section \<open>The order of effects in \<^verbatim>\<open>dealloc_pin\<close>\<close>

text \<open>
  Claim C2, as the code has it: for every allocated pin whose direction is the constant
  \<^verbatim>\<open>INPUT\<close>, \<^verbatim>\<open>dealloc_pin\<close> first writes the pin number to the unexport file; when that
  write has succeeded it unregisters the pin's descriptor from the poller; and it removes
  the pin from the dictionary only when both have succeeded. The write to the unexport
  file always comes before the unregistration. The older copy of the module,
  \<^verbatim>\<open>src/sysfs/gpio.py\<close> with the class \<^verbatim>\<open>GPIOController\<close>, has the same statements in
  the same order.
\<close>

theorem dealloc_pin_unexports_first:
  assumes "map_of (allocated_pins w) n = Some p" and "pin_direction p = INPUT"
  shows "effects (snd (dealloc_pin n w)) =
           effects w @ FileWrite SYSFS_UNEXPORT_PATH (Decimal n) #
             (if file_write (env w) (effects w) SYSFS_UNEXPORT_PATH (Decimal n) = None
              then [EpollUnregister (Pin_fileno p)] else []) \<and>
         (fst (dealloc_pin n w) = Inr () \<longleftrightarrow>
            file_write (env w) (effects w) SYSFS_UNEXPORT_PATH (Decimal n) = None \<and>
            poll_queue w (Pin_fileno p) \<noteq> None) \<and>
         (is_allocated (snd (dealloc_pin n w)) n \<longleftrightarrow> fst (dealloc_pin n w) \<noteq> Inr ())"
  using assms
  by (simp add: dealloc_pin_def poll_queue_unregister_pin_def then_do_def raise_if_def
      is_allocated_def write_file_def did_def getitem_def epoll_unregister_def delitem_def
      delete_conv' split: option.split)

text \<open>On the example board, deallocating the input pin 17.\<close>

theorem dealloc_pin_unexports_first_witness:
  "map_of (allocated_pins (board example_env)) 17 = Some pin17 \<and> pin_direction pin17 = INPUT \<and>
   effects (snd (dealloc_pin 17 (board example_env))) =
     [FileWrite SYSFS_UNEXPORT_PATH (Decimal 17), EpollUnregister 117] \<and>
   fst (dealloc_pin 17 (board example_env)) = Inr () \<and>
   \<not> is_allocated (snd (dealloc_pin 17 (board example_env))) 17"
proof -
  have h1: "map_of (allocated_pins (board example_env)) 17 = Some pin17"
    by (simp add: board_def)
  have h2: "pin_direction pin17 = INPUT"
    by (simp add: pin17_def)
  show ?thesis
    using dealloc_pin_unexports_first [OF h1 h2] h1 h2
    by (simp add: board_def example_env_def pin17_def Pin_fileno_def)
qed

text \<open>
  Claim C2, as it is stated, has the unregistration before the write to the unexport file.
  On the example board the two effects of deallocating pin 17 come in the other order.
\<close>

theorem dealloc_pin_unregisters_first_counterexample:
  "effects (snd (dealloc_pin 17 (board example_env))) =
     [FileWrite SYSFS_UNEXPORT_PATH (Decimal 17), EpollUnregister 117] \<and>
   \<not> issued_before (EpollUnregister 117) (FileWrite SYSFS_UNEXPORT_PATH (Decimal 17))
       (effects (snd (dealloc_pin 17 (board example_env))))"
  by (simp add: dealloc_pin_def poll_queue_unregister_pin_def then_do_def raise_if_def
      is_allocated_def write_file_def did_def getitem_def epoll_unregister_def delitem_def
      Pin_fileno_def example_env_def pin17_def pin4_def board_def)

section \<open>Dispatch to the callback\<close>

text \<open>
  Claim C3, as the code has it: for every pin, \<^verbatim>\<open>Pin.changed\<close> does nothing when no
  callback is set; when one is set it calls it once with the pin's number and the state,
  the registry operations that the callback makes take effect, and an exception that the
  callback raises is raised to the caller of \<^verbatim>\<open>changed\<close>.
\<close>

theorem Pin_changed_propagates:
  "(pin_callback p = None \<longrightarrow> Pin_changed p state w = (Inr (), w)) \<and>
   (\<forall>f. pin_callback p = Some f \<longrightarrow>
      Pin_changed p state w =
        (case call (env w) (effects w) f (pin_number p) state of
           None \<Rightarrow>
             (Inr (), foldl (\<lambda>w1 op. after op w1) (did (Call f (pin_number p) state) w)
                        (reenters (env w) (effects w) f (pin_number p) state))
         | Some e \<Rightarrow>
             (Inl e, foldl (\<lambda>w1 op. after op w1) (did (Call f (pin_number p) state) w)
                       (reenters (env w) (effects w) f (pin_number p) state))))"
  by (simp add: Pin_changed_def call_user_def ok_def Let_def)

text \<open>
  Pin 4 has no callback; the callback of pin 17 raises, and makes no registry operation.
\<close>

theorem Pin_changed_propagates_witness:
  "pin_callback pin4 = None \<and>
   Pin_changed pin4 1 (board raising_env) = (Inr (), board raising_env) \<and>
   pin_callback pin17 = Some 0 \<and>
   Pin_changed pin17 1 (board raising_env) =
     (Inl (UserError 0), did (Call 0 17 1) (board raising_env))"
  using Pin_changed_propagates [of pin4 1 "board raising_env"]
    Pin_changed_propagates [of pin17 1 "board raising_env"]
  by (simp add: example_env_def raising_env_def pin17_def pin4_def board_def)

text \<open>
  Claim C3, as it is stated, has \<^verbatim>\<open>changed\<close> catch the exception of the callback. With a
  callback that raises, \<^verbatim>\<open>changed\<close> raises the same exception.
\<close>

theorem Pin_changed_catches_counterexample:
  "fst (Pin_changed pin17 1 (board raising_env)) = Inl (UserError 0)"
  by (simp add: Pin_changed_def call_user_def Let_def example_env_def raising_env_def
      pin17_def board_def)

section \<open>Reading the state of a pin\<close>

text \<open>
  What \<^verbatim>\<open>get_pin_state\<close> does when the poller holds the descriptor of a pin whose
  direction equals \<^verbatim>\<open>INPUT\<close>, and the read of the pin's descriptor yields the integer
  \<open>v\<close>: it returns \<open>False\<close> when \<open>v \<le> 0\<close> and \<open>True\<close> otherwise, and for such an input it
  unregisters the descriptor, then reads, then registers the descriptor again, so that the
  set of registered descriptors is the same after the call as before it.
\<close>

lemma get_pin_state_registered:
  assumes "map_of (allocated_pins w) n = Some p"
    and "chars (pin_direction p) = chars INPUT \<longrightarrow> poll_queue w (Pin_fileno p) \<noteq> None"
    and "fd_read_int (env w)
           (effects w @ (if chars (pin_direction p) = chars INPUT
                         then [EpollUnregister (Pin_fileno p)] else []))
           (Pin_fileno p) = Inr v"
  shows "fst (get_pin_state n w) = Inr (\<not> v \<le> 0) \<and>
         effects (snd (get_pin_state n w)) =
           effects w @ (if chars (pin_direction p) = chars INPUT
                        then [EpollUnregister (Pin_fileno p), FdRead (Pin_fileno p),
                              EpollRegister (Pin_fileno p) (EPOLLPRI OR EPOLLET)]
                        else [FdRead (Pin_fileno p)]) \<and>
         dom (poll_queue (snd (get_pin_state n w))) = dom (poll_queue w)"
proof -
  have ret: "(if c then ok False else ok True) = (ok (\<not> c) :: bool prog)" for c
    by simp
  from assms show ?thesis
    by (auto simp: get_pin_state_def ret then_do_def raise_if_def is_allocated_def getitem_def
        poll_queue_unregister_pin_def poll_queue_register_pin_def epoll_unregister_def
        epoll_register_def Pin_read_def read_fd_int_def did_def ok_def Pin_fileno_def
        split: if_splits)
qed

text \<open>On the example board, the input pin 17 reads 1.\<close>

lemma get_pin_state_registered_example:
  "map_of (allocated_pins (board example_env)) 17 = Some pin17 \<and>
   poll_queue (board example_env) (Pin_fileno pin17) \<noteq> None \<and>
   fd_read_int (env (board example_env))
     (effects (board example_env) @ [EpollUnregister (Pin_fileno pin17)])
     (Pin_fileno pin17) = Inr 1 \<and>
   fst (get_pin_state 17 (board example_env)) = Inr True \<and>
   effects (snd (get_pin_state 17 (board example_env))) =
     [EpollUnregister 117, FdRead 117, EpollRegister 117 (EPOLLPRI OR EPOLLET)] \<and>
   dom (poll_queue (snd (get_pin_state 17 (board example_env)))) = {117}"
proof -
  have h1: "map_of (allocated_pins (board example_env)) 17 = Some pin17"
    by (simp add: board_def)
  have h2: "chars (pin_direction pin17) = chars INPUT \<longrightarrow>
            poll_queue (board example_env) (Pin_fileno pin17) \<noteq> None"
    by (simp add: board_def pin17_def Pin_fileno_def)
  have h3: "fd_read_int (env (board example_env))
           (effects (board example_env) @ (if chars (pin_direction pin17) = chars INPUT
                         then [EpollUnregister (Pin_fileno pin17)] else []))
           (Pin_fileno pin17) = Inr 1"
    by (simp add: board_def example_env_def)
  show ?thesis
    using get_pin_state_registered [OF h1 h2 h3] h1 h2 h3
    by (simp add: board_def pin17_def Pin_fileno_def)
qed

text \<open>
  Claim C5: for every allocated pin number, \<^verbatim>\<open>get_pin_state\<close> returns \<open>False\<close> when
  the integer read from the pin's descriptor is at most 0 and \<open>True\<close> otherwise; and for a
  pin whose direction is \<^verbatim>\<open>INPUT\<close> it unregisters the descriptor from the poller, then
  reads, then registers the descriptor again.

  \<^verbatim>\<open>get_pin_state\<close> takes a pin for an input when its direction equals \<^verbatim>\<open>INPUT\<close>,
  but \<^verbatim>\<open>alloc_pin\<close> has registered the pin only when its direction is the very object
  \<^verbatim>\<open>INPUT\<close>. On a new controller, pin 27 is allocated with a direction that equals
  \<^verbatim>\<open>'in'\<close> and is another object: the allocation returns the pin and the poller does not
  hold its descriptor. \<^verbatim>\<open>get_pin_state\<close> then raises the error of
  \<^verbatim>\<open>epoll.unregister\<close>; it reads nothing and returns no boolean.
\<close>

theorem get_pin_state_unregistered_input:
  "chars other_in = chars INPUT \<and>
   fst (alloc_pin 27 other_in None None 0 new_board) =
     Inr \<lparr>pin_number = 27, pin_direction = other_in, pin_callback = None,
          pin_active_low = 0, pin_fd = 127\<rparr> \<and>
   is_allocated (snd (alloc_pin 27 other_in None None 0 new_board)) 27 \<and>
   poll_queue (snd (alloc_pin 27 other_in None None 0 new_board)) 127 = None \<and>
   fst (get_pin_state 27 (snd (alloc_pin 27 other_in None None 0 new_board))) =
     Inl (IOError ENOENT) \<and>
   effects (snd (get_pin_state 27 (snd (alloc_pin 27 other_in None None 0 new_board)))) =
     [FileWrite SYSFS_EXPORT_PATH (Decimal 27), FileOpen (SYSFS_GPIO_VALUE_PATH 27),
      FileWrite (SYSFS_GPIO_DIRECTION_PATH 27) (Chars ''in''), EpollUnregister 127]"
proof -
  have a: "alloc_pin 27 other_in None None 0 new_board =
      (Inr \<lparr>pin_number = 27, pin_direction = other_in, pin_callback = None,
            pin_active_low = 0, pin_fd = 127\<rparr>,
       \<lparr>available_pins = [4, 17, 27],
        allocated_pins = [(27, \<lparr>pin_number = 27, pin_direction = other_in,
           pin_callback = None, pin_active_low = 0, pin_fd = 127\<rparr>)],
        mutations = 1, running = True, poll_queue = Map.empty,
        effects = [FileWrite SYSFS_EXPORT_PATH (Decimal 27),
          FileOpen (SYSFS_GPIO_VALUE_PATH 27),
          FileWrite (SYSFS_GPIO_DIRECTION_PATH 27) (Chars ''in'')],
        env = example_env\<rparr>)"
    by (simp add: alloc_pin_def check_pin_validity_def check_pin_already_exported_def
        Pin_init_def in_DIRECTIONS_def DIRECTIONS_def truthy_def setitem_def raise_if_def
        is_allocated_def write_file_def open_file_def did_def then_do_def ok_def
        new_board_def other_in_def Controller_new_def example_env_def)
  show ?thesis
    unfolding a
    by (simp add: get_pin_state_def poll_queue_unregister_pin_def epoll_unregister_def
        Pin_fileno_def getitem_def raise_if_def is_allocated_def did_def then_do_def
        other_in_def)
qed

section \<open>Arguments that \<^verbatim>\<open>alloc_pin\<close> refuses\<close>

text \<open>
  Claim C10: for every pin number that is available and not allocated, and every direction
  whose content is neither \<^verbatim>\<open>'in'\<close> nor \<^verbatim>\<open>'out'\<close>, \<^verbatim>\<open>alloc_pin\<close> raises before it
  writes to the export file and before it constructs a \<^verbatim>\<open>Pin\<close>: the world after the call,
  with the dictionary and the list of effects, is the world before it.
\<close>

theorem alloc_pin_bad_direction:
  assumes "number \<in> set (available_pins w)" and "\<not> is_allocated w number"
    and "\<not> in_DIRECTIONS direction"
  shows "alloc_pin number direction callback edge active_low w =
           (Inl (PinDirectionNotIn direction), w)"
  using assms
  by (simp add: alloc_pin_def check_pin_validity_def then_do_def raise_if_def raise_def)

text \<open>On the example board, pin 27 with the direction \<^verbatim>\<open>'up'\<close>.\<close>

theorem alloc_pin_bad_direction_witness:
  "27 \<in> set (available_pins (board example_env)) \<and> \<not> is_allocated (board example_env) 27 \<and>
   \<not> in_DIRECTIONS (Str ''up'') \<and>
   alloc_pin 27 (Str ''up'') None None 0 (board example_env) =
     (Inl (PinDirectionNotIn (Str ''up'')), board example_env)"
proof -
  have h1: "27 \<in> set (available_pins (board example_env))"
    by (simp add: board_def)
  have h2: "\<not> is_allocated (board example_env) 27"
    by (simp add: board_def is_allocated_def)
  have h3: "\<not> in_DIRECTIONS (Str ''up'')"
    by (simp add: in_DIRECTIONS_def DIRECTIONS_def)
  show ?thesis
    using alloc_pin_bad_direction [OF h1 h2 h3] h1 h2 h3 by simp
qed

section \<open>Rules for triples\<close>

lemma hoare_ok: "(\<And>w. P w \<Longrightarrow> Q x w) \<Longrightarrow> hoare P (ok x) Q E"
  by (simp add: hoare_def ok_def)

lemma hoare_raise: "(\<And>w. P w \<Longrightarrow> E e w) \<Longrightarrow> hoare P (raise e) Q E"
  by (simp add: hoare_def raise_def)

lemma hoare_then_do:
  "hoare P m R E \<Longrightarrow> (\<And>x. hoare (R x) (f x) Q E) \<Longrightarrow> hoare P (then_do m f) Q E"
  by (fastforce simp: hoare_def then_do_def split: prod.splits sum.splits)

lemma hoare_if:
  "(b \<Longrightarrow> hoare P m Q E) \<Longrightarrow> (\<not> b \<Longrightarrow> hoare P m' Q E) \<Longrightarrow>
   hoare P (if b then m else m') Q E"
  by simp

lemma hoare_pure: "(C \<Longrightarrow> hoare P m Q E) \<Longrightarrow> hoare (\<lambda>w. P w \<and> C) m Q E"
  by (auto simp: hoare_def)

lemma hoareD:
  "hoare P m Q E \<Longrightarrow> P w \<Longrightarrow>
   (case fst (m w) of Inl e \<Rightarrow> E e (snd (m w)) | Inr x \<Rightarrow> Q x (snd (m w)))"
  by (auto simp: hoare_def split: prod.splits sum.splits)

lemma hoare_keeps:
  "keeps_registry m \<Longrightarrow>
   hoare (\<lambda>w. allocated_pins w = A) m (\<lambda>_ w. allocated_pins w = A) (\<lambda>_ w. allocated_pins w = A)"
  by (auto simp: hoare_def keeps_registry_def split: prod.splits sum.splits) (metis snd_conv)+

lemma hoare_setitem:
  "hoare (\<lambda>w. allocated_pins w = A) (setitem n p)
     (\<lambda>_ w. allocated_pins w = AList.update n p A) E"
  by (simp add: hoare_def setitem_def)

section \<open>Statements that leave the dictionary alone\<close>

lemma keeps_ok: "keeps_registry (ok x)"
  by (simp add: keeps_registry_def ok_def)

lemma keeps_raise: "keeps_registry (raise e)"
  by (simp add: keeps_registry_def raise_def)

lemma keeps_raise_if: "keeps_registry (raise_if c e)"
  by (simp add: keeps_registry_def raise_if_def)

lemma keeps_write_file: "keeps_registry (write_file p t)"
  by (simp add: keeps_registry_def write_file_def did_def split: option.split)

lemma keeps_open_file: "keeps_registry (open_file p)"
  by (simp add: keeps_registry_def open_file_def did_def split: sum.split)

lemma keeps_epoll_register: "keeps_registry (epoll_register fd m)"
  by (simp add: keeps_registry_def epoll_register_def did_def)

lemma keeps_then_do:
  "keeps_registry m \<Longrightarrow> (\<And>x. keeps_registry (f x)) \<Longrightarrow> keeps_registry (then_do m f)"
  by (auto simp: keeps_registry_def then_do_def split: prod.splits sum.splits) (metis snd_conv)+

lemma keeps_if:
  "keeps_registry m \<Longrightarrow> keeps_registry m' \<Longrightarrow> keeps_registry (if b then m else m')"
  by simp

lemma keeps_case_option:
  "keeps_registry m \<Longrightarrow> (\<And>x. keeps_registry (f x)) \<Longrightarrow>
   keeps_registry (case opt of None \<Rightarrow> m | Some x \<Rightarrow> f x)"
  by (simp split: option.split)

lemmas keeps_intros = keeps_ok keeps_raise keeps_raise_if keeps_write_file keeps_open_file
  keeps_epoll_register keeps_then_do keeps_if keeps_case_option

lemma keeps_check_pin_validity: "keeps_registry (check_pin_validity number)"
  unfolding check_pin_validity_def by (intro keeps_intros)

lemma keeps_check_pin_already_exported: "keeps_registry (check_pin_already_exported number)"
  by (simp add: keeps_registry_def check_pin_already_exported_def)

lemma keeps_poll_queue_register_pin: "keeps_registry (poll_queue_register_pin p)"
  unfolding poll_queue_register_pin_def by (intro keeps_intros)

section \<open>What \<^verbatim>\<open>alloc_pin\<close> and \<^verbatim>\<open>dealloc_pin\<close> do to the dictionary\<close>

lemma hoare_Pin_init:
  "hoare (\<lambda>w. allocated_pins w = A) (Pin_init number direction callback edge active_low)
     (\<lambda>p w. allocated_pins w = A \<and> pin_number p = number \<and> pin_direction p = direction)
     (\<lambda>_ w. allocated_pins w = A)"
  unfolding Pin_init_def
  by (intro hoare_then_do [where R = "\<lambda>_ w. allocated_pins w = A"] hoare_if hoare_raise hoare_ok
        hoare_keeps keeps_intros) simp_all

lemma hoare_alloc_pin:
  "hoare (\<lambda>w. allocated_pins w = A) (alloc_pin number direction callback edge active_low)
     (\<lambda>p w. allocated_pins w = AList.update number p A \<and>
            pin_number p = number \<and> pin_direction p = direction)
     (\<lambda>_ w. allocated_pins w = A)"
  unfolding alloc_pin_def
  apply (intro hoare_then_do [OF hoare_keeps [OF keeps_check_pin_validity]] hoare_if
      hoare_then_do [OF hoare_keeps [OF keeps_check_pin_already_exported]]
      hoare_then_do [OF _ hoare_then_do [OF hoare_Pin_init]])
      apply (simp add: hoare_raise)
     apply (simp add: hoare_raise)
    apply (intro hoare_keeps keeps_intros)
   apply (intro hoare_keeps keeps_intros)
  apply (rule hoare_pure)
  apply (rule hoare_then_do [where R = "\<lambda>_ w. allocated_pins w = A"])
   apply (intro hoare_keeps keeps_intros keeps_poll_queue_register_pin)
  apply (rule hoare_then_do [OF hoare_setitem])
  apply (rule hoare_ok)
  apply simp
  done

lemma alloc_pin_registry:
  "case fst (alloc_pin number direction callback edge active_low w) of
     Inl e \<Rightarrow>
       allocated_pins (snd (alloc_pin number direction callback edge active_low w)) =
         allocated_pins w
   | Inr p \<Rightarrow>
       allocated_pins (snd (alloc_pin number direction callback edge active_low w)) =
         AList.update number p (allocated_pins w) \<and>
       pin_number p = number \<and> pin_direction p = direction"
  using hoareD [OF hoare_alloc_pin [where A = "allocated_pins w"],
      of w number direction callback edge active_low]
  by (simp split: sum.splits)

lemma alloc_pin_allocated:
  assumes "is_allocated w number"
  shows "allocated_pins (snd (alloc_pin number direction callback edge active_low w)) =
           allocated_pins w"
  using assms
  by (simp add: alloc_pin_def check_pin_validity_def then_do_def raise_if_def)

lemma dealloc_pin_registry:
  "allocated_pins (snd (dealloc_pin number w)) =
     (case fst (dealloc_pin number w) of
        Inl e \<Rightarrow> allocated_pins w
      | Inr _ \<Rightarrow> AList.delete number (allocated_pins w))"
  by (simp add: dealloc_pin_def poll_queue_unregister_pin_def ok_def raise_def then_do_def
      did_def write_file_def epoll_unregister_def getitem_def delitem_def raise_if_def
      split: option.split)

lemma dealloc_pin_lookup:
  "map_of (allocated_pins (snd (dealloc_pin number w))) n = Some p \<Longrightarrow>
   map_of (allocated_pins w) n = Some p"
  by (simp add: dealloc_pin_registry delete_conv' split: sum.splits if_splits)

lemma stop_loop_lookup:
  "map_of (allocated_pins (snd (stop_loop ps w))) n = Some p \<Longrightarrow>
   map_of (allocated_pins w) n = Some p"
proof (induction ps arbitrary: w)
  case Nil
  then show ?case by (simp add: ok_def)
next
  case (Cons q ps)
  show ?case
  proof (cases "dealloc_pin (pin_number q) w")
    case (Pair r w1)
    show ?thesis
    proof (cases r)
      case (Inl e)
      with Pair Cons.prems
      have "map_of (allocated_pins (snd (dealloc_pin (pin_number q) w))) n = Some p"
        by (simp add: then_do_def)
      then show ?thesis by (rule dealloc_pin_lookup)
    next
      case (Inr u)
      with Pair Cons.prems have "map_of (allocated_pins (snd (stop_loop ps w1))) n = Some p"
        by (simp add: then_do_def)
      then have "map_of (allocated_pins w1) n = Some p" by (rule Cons.IH)
      with Pair have "map_of (allocated_pins (snd (dealloc_pin (pin_number q) w))) n = Some p"
        by simp
      then show ?thesis by (rule dealloc_pin_lookup)
    qed
  qed
qed

lemma stop_lookup:
  "map_of (allocated_pins (snd (stop w))) n = Some p \<Longrightarrow> map_of (allocated_pins w) n = Some p"
  unfolding stop_def by (drule stop_loop_lookup) simp

lemmas run_defs = ok_def raise_def then_do_def did_def write_file_def open_file_def write_fd_def
  read_fd_int_def call_user_def epoll_register_def epoll_unregister_def is_allocated_def
  getitem_def setitem_def delitem_def values_of_def raise_if_def truthy_def Pin_init_def
  Pin_set_def Pin_reset_def Pin_read_def Pin_fileno_def Pin_changed_def
  check_pin_already_exported_def check_pin_validity_def poll_queue_register_pin_def
  poll_queue_unregister_pin_def in_DIRECTIONS_def in_EDGES_def alloc_pin_def dealloc_pin_def
  get_pin_def set_pin_def reset_pin_def get_pin_state_def stop_def DIRECTIONS_def EDGES_def
  ACTIVE_LOW_MODES_def ACTIVE_LOW_ON_def ACTIVE_LOW_OFF_def RISING_def FALLING_def BOTH_def

lemmas board_defs = example_env_def raising_env_def pin17_def pin4_def board_def

section \<open>The example board\<close>

text \<open>
  The board is what the two allocations leave behind on a new controller whose host has
  assigned the available pins, but for the effects issued on the way.
\<close>

lemma first_alloc:
  "alloc_pin 17 INPUT (Some 0) (Some BOTH) 0
     ((Controller_new example_env)\<lparr>available_pins := [4, 17, 27]\<rparr>) =
   (Inr pin17,
    \<lparr>available_pins = [4, 17, 27], allocated_pins = [(17, pin17)], mutations = 1,
      running = True,
      poll_queue = [117 \<mapsto> EPOLLPRI OR EPOLLET],
      effects = [FileWrite SYSFS_EXPORT_PATH (Decimal 17), FileOpen (SYSFS_GPIO_VALUE_PATH 17),
        FileWrite (SYSFS_GPIO_DIRECTION_PATH 17) (Chars ''in''),
        FileWrite (SYSFS_GPIO_EDGE_PATH 17) (Chars ''both''),
        EpollRegister 117 (EPOLLPRI OR EPOLLET)], env = example_env\<rparr>)"
  by (simp add: run_defs board_defs Controller_new_def)

lemma board_reached:
  "snd (alloc_pin 4 OUTPUT None None 0
     (snd (alloc_pin 17 INPUT (Some 0) (Some BOTH) 0
        ((Controller_new example_env)\<lparr>available_pins := [4, 17, 27]\<rparr>)))) =
   (board example_env)\<lparr>effects :=
      [FileWrite SYSFS_EXPORT_PATH (Decimal 17), FileOpen (SYSFS_GPIO_VALUE_PATH 17),
        FileWrite (SYSFS_GPIO_DIRECTION_PATH 17) (Chars ''in''),
        FileWrite (SYSFS_GPIO_EDGE_PATH 17) (Chars ''both''),
        EpollRegister 117 (EPOLLPRI OR EPOLLET),
        FileWrite SYSFS_EXPORT_PATH (Decimal 4), FileOpen (SYSFS_GPIO_VALUE_PATH 4),
        FileWrite (SYSFS_GPIO_DIRECTION_PATH 4) (Chars ''out'')]\<rparr>"
  unfolding first_alloc
  by (simp add: run_defs board_defs)

section \<open>A failed allocation\<close>

text \<open>
  Claim C8: whenever \<^verbatim>\<open>alloc_pin\<close> raises, whatever the exception and wherever it
  comes from (the number, the direction, the edge, the export file, the constructor of
  \<^verbatim>\<open>Pin\<close>, the poller), the dictionary of allocated pins is after the call what it was
  before: no pin is inserted.
\<close>

theorem alloc_pin_failure_keeps_registry:
  assumes "fst (alloc_pin number direction callback edge active_low w) = Inl e"
  shows "allocated_pins (snd (alloc_pin number direction callback edge active_low w)) =
           allocated_pins w"
  using alloc_pin_registry [of number direction callback edge active_low w] assms by simp

text \<open>
  On the example board, pin 27 with \<^verbatim>\<open>active_low=2\<close>: the constructor raises after the
  pin has been exported and its direction written.
\<close>

theorem alloc_pin_failure_keeps_registry_witness:
  "fst (alloc_pin 27 OUTPUT None None 2 (board example_env)) = Inl MustSupplyActiveLow \<and>
   allocated_pins (snd (alloc_pin 27 OUTPUT None None 2 (board example_env))) =
     [(17, pin17), (4, pin4)]"
proof -
  have h: "fst (alloc_pin 27 OUTPUT None None 2 (board example_env)) = Inl MustSupplyActiveLow"
    by (simp add: run_defs board_defs)
  have b: "allocated_pins (board example_env) = [(17, pin17), (4, pin4)]"
    by (simp add: board_def)
  show ?thesis
    using alloc_pin_failure_keeps_registry [OF h] h b by simp
qed

section \<open>The invariant of the dictionary\<close>

lemma keys_match_new: "keys_match (Controller_new e)"
  by (simp add: keys_match_def Controller_new_def)

text \<open>
  Claim C9: each of the registry operations \<^verbatim>\<open>alloc_pin\<close>, \<^verbatim>\<open>dealloc_pin\<close> and
  \<^verbatim>\<open>stop\<close>, whether it returns or raises, preserves the invariant that the pin stored
  under a key has that key as its number; and a key that is allocated before and after the
  operation holds a pin with the same number and the same direction.
\<close>

theorem registry_ops_keep_keys_match:
  assumes "keys_match w"
  shows "keys_match (after op w) \<and>
         (\<forall>n p p'. map_of (allocated_pins w) n = Some p \<and>
                   map_of (allocated_pins (after op w)) n = Some p' \<longrightarrow>
                   pin_number p' = pin_number p \<and> pin_direction p' = pin_direction p)"
proof (cases op)
  case (Alloc number direction callback edge active_low)
  show ?thesis
  proof (cases "is_allocated w number")
    case True
    with Alloc assms show ?thesis
      by (auto simp: alloc_pin_allocated keys_match_def)
  next
    case False
    with Alloc assms alloc_pin_registry [of number direction callback edge active_low w]
    show ?thesis
      by (auto simp: keys_match_def is_allocated_def update_conv' split: sum.splits if_splits)
  qed
next
  case (Dealloc number)
  with assms show ?thesis
    by (auto simp: keys_match_def dest!: dealloc_pin_lookup)
next
  case Stop
  with assms show ?thesis
    by (auto simp: keys_match_def dest!: stop_lookup)
qed

text \<open>On the example board: allocating pin 27, deallocating pin 17, and stopping.\<close>

theorem registry_ops_keep_keys_match_witness:
  "keys_match (board example_env) \<and>
   keys_match (after (Alloc 27 OUTPUT None None 0) (board example_env)) \<and>
   keys_match (after (Dealloc 17) (board example_env)) \<and>
   keys_match (after Stop (board example_env)) \<and>
   map_of (allocated_pins (board example_env)) 4 = Some pin4 \<and>
   map_of (allocated_pins (after (Dealloc 17) (board example_env))) 4 = Some pin4"
proof -
  have h: "keys_match (board example_env)"
    by (simp add: keys_match_def board_def pin17_def pin4_def)
  have b: "map_of (allocated_pins (board example_env)) 4 = Some pin4"
    by (simp add: board_def)
  have d: "map_of (allocated_pins (after (Dealloc 17) (board example_env))) 4 = Some pin4"
    by (simp add: run_defs board_defs)
  have k1: "keys_match (after (Alloc 27 OUTPUT None None 0) (board example_env))"
    using registry_ops_keep_keys_match [OF h] by (rule conjunct1)
  have k2: "keys_match (after (Dealloc 17) (board example_env))"
    using registry_ops_keep_keys_match [OF h] by (rule conjunct1)
  have k3: "keys_match (after Stop (board example_env))"
    using registry_ops_keep_keys_match [OF h] by (rule conjunct1)
  from h b d k1 k2 k3 show ?thesis by blast
qed

section \<open>An allocation with valid arguments\<close>

lemma Pin_init_succeeds:
  assumes "callback \<noteq> None \<longrightarrow> in_EDGES edge" and "active_low = 0 \<or> active_low = 1"
    and "\<forall>h p t. file_write (env w) h p t = None"
    and "file_open (env w) (effects w) (SYSFS_GPIO_VALUE_PATH number) = Inr fd"
  shows "\<exists>w'. Pin_init number direction callback edge active_low w =
           (Inr \<lparr>pin_number = number, pin_direction = direction, pin_callback = callback,
                 pin_active_low = active_low, pin_fd = fd\<rparr>, w') \<and>
           poll_queue w' = poll_queue w \<and> allocated_pins w' = allocated_pins w"
  using assms
  by (auto simp: Pin_init_def ok_def raise_def then_do_def did_def write_file_def open_file_def
      truthy_def in_EDGES_def EDGES_def RISING_def FALLING_def BOTH_def
      ACTIVE_LOW_MODES_def ACTIVE_LOW_ON_def ACTIVE_LOW_OFF_def split: option.splits)

lemma Pin_init_bad_polarity:
  assumes "callback \<noteq> None \<longrightarrow> in_EDGES edge" and "active_low \<noteq> 0" and "active_low \<noteq> 1"
    and "\<forall>h p t. file_write (env w) h p t = None"
    and "file_open (env w) (effects w) (SYSFS_GPIO_VALUE_PATH number) = Inr fd"
  shows "\<exists>w'. Pin_init number direction callback edge active_low w =
           (Inl MustSupplyActiveLow, w')"
  using assms
  by (auto simp: Pin_init_def ok_def raise_def then_do_def did_def write_file_def open_file_def
      truthy_def in_EDGES_def EDGES_def RISING_def FALLING_def BOTH_def
      ACTIVE_LOW_MODES_def ACTIVE_LOW_ON_def ACTIVE_LOW_OFF_def split: option.splits)

lemma alloc_pin_valid:
  assumes "number \<in> set (available_pins w)" and "\<not> is_allocated w number"
    and "in_DIRECTIONS direction" and "callback \<noteq> None \<longrightarrow> in_EDGES edge"
  shows "alloc_pin number direction callback edge active_low w =
     then_do (if \<not> isdir (env w) (effects w) (SYSFS_GPIO_PATH number)
              then write_file SYSFS_EXPORT_PATH (Decimal number) else ok ()) (\<lambda>_.
     then_do (Pin_init number direction callback edge active_low) (\<lambda>p.
     then_do (if direction = INPUT then poll_queue_register_pin p else ok ()) (\<lambda>_.
     then_do (setitem number p) (\<lambda>_.
     ok p)))) w"
  using assms
  by (auto simp: alloc_pin_def check_pin_validity_def check_pin_already_exported_def then_do_def
      raise_if_def)

lemma export_step:
  assumes "files_work w number"
  obtains w1 where
    "(if \<not> b then write_file SYSFS_EXPORT_PATH (Decimal number) else ok ()) w = (Inr (), w1)"
    and "files_work w1 number"
  using assms by (cases b) (auto simp: files_work_def write_file_def ok_def did_def)

lemma alloc_pin_succeeds:
  assumes valid: "number \<in> set (available_pins w)" "\<not> is_allocated w number"
    "in_DIRECTIONS direction" "callback \<noteq> None \<longrightarrow> in_EDGES edge"
    and al: "active_low = 0 \<or> active_low = 1"
    and fw: "files_work w number"
  shows "\<exists>p w'. alloc_pin number direction callback edge active_low w = (Inr p, w') \<and>
           map_of (allocated_pins w') number = Some p \<and> pin_active_low p = active_low"
proof -
  obtain w1 where w1:
    "(if \<not> isdir (env w) (effects w) (SYSFS_GPIO_PATH number)
      then write_file SYSFS_EXPORT_PATH (Decimal number) else ok ()) w = (Inr (), w1)"
    "files_work w1 number"
    by (rule export_step [OF fw])
  from w1(2) obtain fd where fd:
    "file_open (env w1) (effects w1) (SYSFS_GPIO_VALUE_PATH number) = Inr fd"
    "poll_queue w1 fd = None"
    "\<forall>h p t. file_write (env w1) h p t = None"
    unfolding files_work_def by blast
  from Pin_init_succeeds [OF valid(4) al fd(3) fd(1)]
  obtain w2 where w2:
    "Pin_init number direction callback edge active_low w1 =
       (Inr \<lparr>pin_number = number, pin_direction = direction, pin_callback = callback,
             pin_active_low = active_low, pin_fd = fd\<rparr>, w2)"
    "poll_queue w2 = poll_queue w1"
    by blast
  show ?thesis
    unfolding alloc_pin_valid [OF valid]
    using w1(1) w2 fd(2)
    by (simp add: then_do_def poll_queue_register_pin_def epoll_register_def Pin_fileno_def
        setitem_def ok_def did_def update_conv')
qed

lemma alloc_pin_bad_polarity:
  assumes valid: "number \<in> set (available_pins w)" "\<not> is_allocated w number"
    "in_DIRECTIONS direction" "callback \<noteq> None \<longrightarrow> in_EDGES edge"
    and al: "active_low \<noteq> 0" "active_low \<noteq> 1"
    and fw: "files_work w number"
  shows "fst (alloc_pin number direction callback edge active_low w) = Inl MustSupplyActiveLow"
proof -
  obtain w1 where w1:
    "(if \<not> isdir (env w) (effects w) (SYSFS_GPIO_PATH number)
      then write_file SYSFS_EXPORT_PATH (Decimal number) else ok ()) w = (Inr (), w1)"
    "files_work w1 number"
    by (rule export_step [OF fw])
  from w1(2) obtain fd where fd:
    "file_open (env w1) (effects w1) (SYSFS_GPIO_VALUE_PATH number) = Inr fd"
    "\<forall>h p t. file_write (env w1) h p t = None"
    unfolding files_work_def by blast
  from Pin_init_bad_polarity [OF valid(4) al fd(2) fd(1)]
  obtain w2 where
    "Pin_init number direction callback edge active_low w1 = (Inl MustSupplyActiveLow, w2)"
    by blast
  then show ?thesis
    unfolding alloc_pin_valid [OF valid]
    using w1(1)
    by (simp add: then_do_def)
qed

text \<open>
  Claim C6: for every pin number that is available and not allocated, with a valid
  direction and, when a callback is given, a valid edge, and with sysfs files that work,
  \<^verbatim>\<open>alloc_pin\<close> with \<^verbatim>\<open>active_low=2\<close> fails with the exception of the invalid
  polarity, and \<^verbatim>\<open>alloc_pin\<close> with \<^verbatim>\<open>active_low=1\<close> and with \<^verbatim>\<open>active_low=0\<close>
  returns the pin, which is then stored under its number.
\<close>

theorem alloc_pin_polarity:
  assumes "number \<in> set (available_pins w)" and "\<not> is_allocated w number"
    and "in_DIRECTIONS direction" and "callback \<noteq> None \<longrightarrow> in_EDGES edge"
    and "files_work w number"
  shows "fst (alloc_pin number direction callback edge 2 w) = Inl MustSupplyActiveLow \<and>
         (\<exists>p w'. alloc_pin number direction callback edge 1 w = (Inr p, w') \<and>
            map_of (allocated_pins w') number = Some p \<and> pin_active_low p = 1) \<and>
         (\<exists>p w'. alloc_pin number direction callback edge 0 w = (Inr p, w') \<and>
            map_of (allocated_pins w') number = Some p \<and> pin_active_low p = 0)"
  using alloc_pin_bad_polarity [OF assms(1-4) _ _ assms(5), of 2]
    alloc_pin_succeeds [OF assms(1-4) _ assms(5), of 1]
    alloc_pin_succeeds [OF assms(1-4) _ assms(5), of 0]
  by simp

text \<open>On the example board, pin 27 as an input with a callback on the rising edge.\<close>

theorem alloc_pin_polarity_witness:
  "27 \<in> set (available_pins (board example_env)) \<and> \<not> is_allocated (board example_env) 27 \<and>
   in_DIRECTIONS INPUT \<and> in_EDGES (Some RISING) \<and> files_work (board example_env) 27 \<and>
   fst (alloc_pin 27 INPUT (Some 1) (Some RISING) 2 (board example_env)) =
     Inl MustSupplyActiveLow \<and>
   (\<exists>p. fst (alloc_pin 27 INPUT (Some 1) (Some RISING) 1 (board example_env)) = Inr p) \<and>
   (\<exists>p. fst (alloc_pin 27 INPUT (Some 1) (Some RISING) 0 (board example_env)) = Inr p)"
proof -
  have h1: "27 \<in> set (available_pins (board example_env))"
    by (simp add: board_def)
  have h2: "\<not> is_allocated (board example_env) 27"
    by (simp add: board_def is_allocated_def)
  have h3: "in_DIRECTIONS INPUT"
    by (simp add: in_DIRECTIONS_def DIRECTIONS_def)
  have h4: "Some (1::nat) \<noteq> None \<longrightarrow> in_EDGES (Some RISING)"
    by (simp add: in_EDGES_def EDGES_def)
  have h5: "files_work (board example_env) 27"
    by (simp add: files_work_def board_defs)
  from alloc_pin_polarity [OF h1 h2 h3 h4 h5]
  have "fst (alloc_pin 27 INPUT (Some 1) (Some RISING) 2 (board example_env)) =
          Inl MustSupplyActiveLow"
    and "\<exists>p. fst (alloc_pin 27 INPUT (Some 1) (Some RISING) 1 (board example_env)) = Inr p"
    and "\<exists>p. fst (alloc_pin 27 INPUT (Some 1) (Some RISING) 0 (board example_env)) = Inr p"
    by fastforce+
  with h1 h2 h3 h4 h5 show ?thesis by simp
qed

section \<open>Deallocation and allocation again\<close>

lemma dealloc_pin_available_pins:
  "available_pins (snd (dealloc_pin number w)) = available_pins w"
  by (simp add: dealloc_pin_def poll_queue_unregister_pin_def ok_def raise_def then_do_def
      did_def write_file_def epoll_unregister_def getitem_def delitem_def raise_if_def
      split: option.split)

text \<open>
  Claim C7: for every allocated pin number, once \<^verbatim>\<open>dealloc_pin\<close> has returned, the number
  is no longer a key of the dictionary, and \<^verbatim>\<open>alloc_pin\<close> of the same number with valid
  arguments, and with sysfs files that work, returns a pin, which is then stored under the
  number.
\<close>

theorem dealloc_then_alloc:
  assumes "is_allocated w number" and "fst (dealloc_pin number w) = Inr ()"
    and "number \<in> set (available_pins w)"
    and "in_DIRECTIONS direction" and "callback \<noteq> None \<longrightarrow> in_EDGES edge"
    and "active_low = 0 \<or> active_low = 1"
    and "files_work (snd (dealloc_pin number w)) number"
  shows "\<not> is_allocated (snd (dealloc_pin number w)) number \<and>
         (\<exists>p w'. alloc_pin number direction callback edge active_low
                   (snd (dealloc_pin number w)) = (Inr p, w') \<and>
                 map_of (allocated_pins w') number = Some p)"
proof -
  have gone: "\<not> is_allocated (snd (dealloc_pin number w)) number"
    using assms(2) by (simp add: is_allocated_def dealloc_pin_registry delete_conv')
  have avail: "number \<in> set (available_pins (snd (dealloc_pin number w)))"
    using assms(3) by (simp add: dealloc_pin_available_pins)
  from alloc_pin_succeeds [OF avail gone assms(4) assms(5) assms(6) assms(7)] gone
  show ?thesis by blast
qed

text \<open>On the example board, the input pin 17 is deallocated and allocated again.\<close>

theorem dealloc_then_alloc_witness:
  "is_allocated (board example_env) 17 \<and> fst (dealloc_pin 17 (board example_env)) = Inr () \<and>
   17 \<in> set (available_pins (board example_env)) \<and> in_DIRECTIONS INPUT \<and>
   in_EDGES (Some BOTH) \<and>
   files_work (snd (dealloc_pin 17 (board example_env))) 17 \<and>
   \<not> is_allocated (snd (dealloc_pin 17 (board example_env))) 17 \<and>
   (\<exists>p. fst (alloc_pin 17 INPUT (Some 0) (Some BOTH) 0
                (snd (dealloc_pin 17 (board example_env)))) = Inr p)"
proof -
  have h1: "is_allocated (board example_env) 17"
    by (simp add: board_def is_allocated_def)
  have h2: "fst (dealloc_pin 17 (board example_env)) = Inr ()"
    by (simp add: run_defs board_defs)
  have h3: "17 \<in> set (available_pins (board example_env))"
    by (simp add: board_def)
  have h4: "in_DIRECTIONS INPUT"
    by (simp add: in_DIRECTIONS_def DIRECTIONS_def)
  have h5: "Some (0::nat) \<noteq> None \<longrightarrow> in_EDGES (Some BOTH)"
    by (simp add: in_EDGES_def EDGES_def)
  have h6: "(0::int) = 0 \<or> (0::int) = 1"
    by simp
  have h7: "files_work (snd (dealloc_pin 17 (board example_env))) 17"
    by (simp add: files_work_def run_defs board_defs)
  from dealloc_then_alloc [OF h1 h2 h3 h4 h5 h6 h7]
  have "\<not> is_allocated (snd (dealloc_pin 17 (board example_env))) 17"
    and "\<exists>p. fst (alloc_pin 17 INPUT (Some 0) (Some BOTH) 0
                  (snd (dealloc_pin 17 (board example_env)))) = Inr p"
    by fastforce+
  with h1 h2 h3 h4 h5 h7 show ?thesis by simp
qed

section \<open>The dispatch of a batch of events\<close>

lemma later_filenos_differ:
  assumes "distinct (map Pin_fileno ps)" and "pos < length ps"
  shows "\<forall>p \<in> set (drop (Suc pos) ps). Pin_fileno p \<noteq> Pin_fileno (ps ! pos)"
proof
  fix p
  assume "p \<in> set (drop (Suc pos) ps)"
  then obtain j where j: "j < length (drop (Suc pos) ps)" "p = drop (Suc pos) ps ! j"
    by (auto simp: in_set_conv_nth)
  then have at: "p = ps ! (Suc pos + j)" and lt: "Suc pos + j < length ps"
    by auto
  from assms lt nth_eq_iff_index_eq [of "map Pin_fileno ps" "Suc pos + j" pos]
  have "map Pin_fileno ps ! (Suc pos + j) \<noteq> map Pin_fileno ps ! pos"
    by simp
  with at lt assms(2) show "Pin_fileno p \<noteq> Pin_fileno (ps ! pos)"
    by simp
qed

lemma read_and_dispatch:
  assumes "fd_read_int (env w) (effects w) (Pin_fileno p) = Inr v"
    and "\<forall>f. pin_callback p = Some f \<longrightarrow>
           call (env w) (effects w @ [FdRead (Pin_fileno p)]) f (pin_number p) v = None \<and>
           reenters (env w) (effects w @ [FdRead (Pin_fileno p)]) f (pin_number p) v = []"
  shows "then_do (Pin_read p) (Pin_changed p) w =
           (Inr (), w\<lparr>effects := effects w @ dispatch_effects (env w) (effects w) p\<rparr>)"
  using assms
  by (simp add: then_do_def Pin_read_def read_fd_int_def Pin_changed_def call_user_def
      Pin_fileno_def did_def ok_def dispatch_effects_def Let_def split: option.split)

text \<open>
  The inner loop over a dictionary that no callback changes: it dispatches to the first
  pin from the iterator's position on that holds the descriptor, and to no other, since
  no later pin holds the same descriptor.
\<close>

lemma poll_queue_event_pins_undisturbed:
  assumes d: "distinct (map Pin_fileno (map snd al))"
    and q: "\<forall>h. \<forall>p \<in> set (map snd al).
              (\<exists>v. fd_read_int e h (Pin_fileno p) = Inr v) \<and>
              (\<forall>f v. pin_callback p = Some f \<longrightarrow>
                 call e h f (pin_number p) v = None \<and> reenters e h f (pin_number p) v = [])"
  shows "allocated_pins w = al \<Longrightarrow> mutations w = m0 \<Longrightarrow> env w = e \<Longrightarrow>
         pos + left = length al \<Longrightarrow>
         poll_queue_event_pins left (length al) m0 pos fd w =
           (Inr (), w\<lparr>effects := effects w @
              (case find (\<lambda>p. Pin_fileno p = fd) (drop pos (map snd al)) of
                 None \<Rightarrow> []
               | Some p \<Rightarrow> dispatch_effects e (effects w) p)\<rparr>)"
proof (induction left arbitrary: pos w)
  case 0
  then show ?case
    by (simp add: values_next_def then_do_def ok_def)
next
  case (Suc left)
  let ?p = "snd (al ! pos)"
  from Suc.prems have pos: "pos < length al"
    by simp
  then have dr: "drop pos (map snd al) = ?p # drop (Suc pos) (map snd al)"
    by (simp add: Cons_nth_drop_Suc [symmetric])
  from pos have mem: "?p \<in> set (map snd al)"
    by simp
  from Suc.prems pos have nxt: "values_next (length al) m0 pos w = (Inr (Some ?p), w)"
    by (simp add: values_next_def)
  show ?case
  proof (cases "Pin_fileno ?p = fd")
    case True
    from q mem Suc.prems(3) obtain v where
      v: "fd_read_int (env w) (effects w) (Pin_fileno ?p) = Inr v"
      by blast
    from q mem Suc.prems(3) have c: "\<forall>f. pin_callback ?p = Some f \<longrightarrow>
        call (env w) (effects w @ [FdRead (Pin_fileno ?p)]) f (pin_number ?p) v = None \<and>
        reenters (env w) (effects w @ [FdRead (Pin_fileno ?p)]) f (pin_number ?p) v = []"
      by blast
    let ?w1 = "w\<lparr>effects := effects w @ dispatch_effects (env w) (effects w) ?p\<rparr>"
    have step: "then_do (Pin_read ?p) (Pin_changed ?p) w = (Inr (), ?w1)"
      using v c by (rule read_and_dispatch)
    from later_filenos_differ [OF d, of pos] pos True
    have "\<forall>p \<in> set (drop (Suc pos) (map snd al)). Pin_fileno p \<noteq> fd"
      by (simp add: drop_map)
    then have none: "find (\<lambda>p. Pin_fileno p = fd) (drop (Suc pos) (map snd al)) = None"
      by (simp add: find_None_iff)
    have rest: "poll_queue_event_pins left (length al) m0 (Suc pos) fd ?w1 = (Inr (), ?w1)"
      using Suc.IH [of ?w1 "Suc pos"] Suc.prems none by simp
    from nxt step rest True dr Suc.prems(3) show ?thesis
      by (simp add: then_do_def)
  next
    case False
    have "poll_queue_event_pins left (length al) m0 (Suc pos) fd w =
        (Inr (), w\<lparr>effects := effects w @
           (case find (\<lambda>p. Pin_fileno p = fd) (drop (Suc pos) (map snd al)) of
              None \<Rightarrow> []
            | Some p \<Rightarrow> dispatch_effects e (effects w) p)\<rparr>)"
      using Suc.prems by (intro Suc.IH) simp_all
    with nxt False dr show ?thesis
      by (simp add: then_do_def ok_def)
  qed
qed

lemma poll_queue_event_dispatched:
  assumes d: "distinct (map Pin_fileno pins)"
    and q: "\<forall>h. \<forall>p \<in> set pins.
              (\<exists>v. fd_read_int e h (Pin_fileno p) = Inr v) \<and>
              (\<forall>f v. pin_callback p = Some f \<longrightarrow>
                 call e h f (pin_number p) v = None \<and> reenters e h f (pin_number p) v = [])"
  shows "values_of w = pins \<Longrightarrow> env w = e \<Longrightarrow>
         poll_queue_event events w =
           (Inr (), w\<lparr>effects := dispatched e pins (effects w) events\<rparr>)"
proof (induction events arbitrary: w)
  case Nil
  show ?case by (simp add: ok_def)
next
  case (Cons ev events)
  obtain fd eventmask where ev: "ev = (fd, eventmask)"
    by (cases ev)
  show ?case
  proof (cases "eventmask AND (EPOLLPRI OR EPOLLET) = 0")
    case True
    with ev Cons show ?thesis by simp
  next
    case False
    let ?w1 = "w\<lparr>effects := effects w @
        (case find (\<lambda>p. Pin_fileno p = fd) pins of
           None \<Rightarrow> []
         | Some p \<Rightarrow> dispatch_effects e (effects w) p)\<rparr>"
    from d Cons.prems(1)
    have d': "distinct (map Pin_fileno (map snd (allocated_pins w)))"
      by (simp only: values_of_def)
    from q Cons.prems(1)
    have q': "\<forall>h. \<forall>p \<in> set (map snd (allocated_pins w)).
              (\<exists>v. fd_read_int e h (Pin_fileno p) = Inr v) \<and>
              (\<forall>f v. pin_callback p = Some f \<longrightarrow>
                 call e h f (pin_number p) v = None \<and> reenters e h f (pin_number p) v = [])"
      by (simp only: values_of_def)
    have "poll_queue_event_pins (length (allocated_pins w)) (length (allocated_pins w))
        (mutations w) 0 fd w =
      (Inr (), w\<lparr>effects := effects w @
         (case find (\<lambda>p. Pin_fileno p = fd) (drop 0 (map snd (allocated_pins w))) of
            None \<Rightarrow> []
          | Some p \<Rightarrow> dispatch_effects e (effects w) p)\<rparr>)"
      by (rule poll_queue_event_pins_undisturbed [OF d' q']) (simp_all add: Cons.prems)
    with Cons.prems(1)
    have inner: "poll_queue_event_pins (length (allocated_pins w)) (length (allocated_pins w))
        (mutations w) 0 fd w = (Inr (), ?w1)"
      by (simp add: values_of_def)
    have rest: "poll_queue_event events ?w1 =
        (Inr (), ?w1\<lparr>effects := dispatched e pins (effects ?w1) events\<rparr>)"
      using Cons.prems by (intro Cons.IH) (simp_all add: values_of_def)
    from False ev inner rest show ?thesis
      by (simp add: then_do_def split: option.split)
  qed
qed

text \<open>
  Claim C4, as the code has it: given that no two allocated pins hold the same descriptor,
  and in a batch during which the reads yield integers, the callbacks return and no
  callback allocates or deallocates a pin, \<^verbatim>\<open>_poll_queue_event\<close> returns, and what it
  has done is \<open>dispatched\<close>: for every event of the batch with one of the two bits, the one
  allocated pin that holds the event's descriptor is read once and its callback is called
  once, with the pin's number and the value just read; an event without these bits causes
  nothing.
\<close>

theorem poll_queue_event_dispatches_once:
  assumes "distinct (map Pin_fileno (values_of w))" and "undisturbed w"
  shows "poll_queue_event events w =
           (Inr (), w\<lparr>effects := dispatched (env w) (values_of w) (effects w) events\<rparr>)"
  using assms(2) poll_queue_event_dispatched [OF assms(1), of "env w" w events]
  unfolding undisturbed_def by blast

text \<open>
  On the example board: an event for the input pin 17, one for pin 4, which has no
  callback, one for pin 17 without the two bits, and one for a descriptor that no pin holds.
\<close>

theorem poll_queue_event_dispatches_once_witness:
  "distinct (map Pin_fileno (values_of (board example_env))) \<and> undisturbed (board example_env) \<and>
   poll_queue_event [(117, EPOLLPRI), (104, EPOLLPRI), (117, 1), (9, EPOLLPRI)] (board example_env) =
     (Inr (), (board example_env)\<lparr>effects := [FdRead 117, Call 0 17 1, FdRead 104]\<rparr>)"
proof -
  have h1: "distinct (map Pin_fileno (values_of (board example_env)))"
    by (simp add: values_of_def Pin_fileno_def board_defs)
  have h2: "undisturbed (board example_env)"
    by (simp add: undisturbed_def values_of_def board_defs)
  have e: "dispatched (env (board example_env)) (values_of (board example_env))
             (effects (board example_env)) [(117, EPOLLPRI), (104, EPOLLPRI), (117, 1), (9, EPOLLPRI)] =
           [FdRead 117, Call 0 17 1, FdRead 104]"
    by (simp add: values_of_def Pin_fileno_def dispatch_effects_def board_defs
        EPOLLPRI_def EPOLLET_def)
  have "poll_queue_event [(117, EPOLLPRI), (104, EPOLLPRI), (117, 1), (9, EPOLLPRI)]
          (board example_env) =
        (Inr (), (board example_env)\<lparr>effects := [FdRead 117, Call 0 17 1, FdRead 104]\<rparr>)"
    using poll_queue_event_dispatches_once [OF h1 h2,
        of "[(117, EPOLLPRI), (104, EPOLLPRI), (117, 1), (9, EPOLLPRI)]"]
    by (simp only: e)
  with h1 h2 show ?thesis by blast
qed

text \<open>
  Claim C4, as it is stated, holds for every batch and every callback. On the board with
  the two inputs, whose descriptors differ, and with callbacks that raise, a batch with one
  event for each pin ends with the exception of the first callback: pin 27 is not read and
  its callback is not called.
\<close>

theorem poll_queue_event_raising_callback_counterexample:
  "distinct (map Pin_fileno (values_of (inputs_board raising_env))) \<and>
   poll_queue_event [(117, EPOLLPRI), (127, EPOLLPRI)] (inputs_board raising_env) =
     (Inl (UserError 0), (inputs_board raising_env)\<lparr>effects := [FdRead 117, Call 0 17 1]\<rparr>) \<and>
   Call 1 27 1 \<notin> set (effects (snd (poll_queue_event [(117, EPOLLPRI), (127, EPOLLPRI)]
                                      (inputs_board raising_env))))"
proof -
  have r: "poll_queue_event [(117, EPOLLPRI), (127, EPOLLPRI)] (inputs_board raising_env) =
     (Inl (UserError 0), (inputs_board raising_env)\<lparr>effects := [FdRead 117, Call 0 17 1]\<rparr>)"
    by (simp add: values_next_def then_do_def ok_def Pin_fileno_def Pin_read_def
        read_fd_int_def Pin_changed_def call_user_def did_def Let_def inputs_board_def
        pin17_def pin27_def raising_env_def example_env_def EPOLLPRI_def EPOLLET_def)
  have d: "distinct (map Pin_fileno (values_of (inputs_board raising_env)))"
    by (simp add: values_of_def Pin_fileno_def inputs_board_def pin17_def pin27_def)
  show ?thesis
    unfolding r using d by simp
qed

text \<open>
  The loop runs over the dictionary itself. With callbacks that deallocate their pin, the
  same batch ends when the iterator is asked for the value after pin 17: the dictionary
  has lost an entry, and pin 27 is not read.
\<close>

lemma poll_queue_event_deallocating_callback:
  "poll_queue_event [(117, EPOLLPRI), (127, EPOLLPRI)] (inputs_board deallocating_env) =
     (Inl RuntimeError,
      (inputs_board deallocating_env)
        \<lparr>allocated_pins := [(27, pin27)], mutations := 3,
         poll_queue := [127 \<mapsto> EPOLLPRI OR EPOLLET],
         effects := [FdRead 117, Call 0 17 1, FileWrite SYSFS_UNEXPORT_PATH (Decimal 17),
                     EpollUnregister 117]\<rparr>)"
  by (simp add: values_next_def Pin_changed_def call_user_def Let_def run_defs
      inputs_board_def pin17_def pin27_def deallocating_env_def example_env_def
      EPOLLPRI_def EPOLLET_def fun_upd_twist)

text \<open>The board with the two inputs is what two allocations leave on a new controller.\<close>

lemma inputs_board_reached:
  "snd (alloc_pin 27 INPUT (Some 1) (Some RISING) 0
     (snd (alloc_pin 17 INPUT (Some 0) (Some BOTH) 0 new_board))) =
   (inputs_board example_env)\<lparr>effects :=
      [FileWrite SYSFS_EXPORT_PATH (Decimal 17), FileOpen (SYSFS_GPIO_VALUE_PATH 17),
        FileWrite (SYSFS_GPIO_DIRECTION_PATH 17) (Chars ''in''),
        FileWrite (SYSFS_GPIO_EDGE_PATH 17) (Chars ''both''),
        EpollRegister 117 (EPOLLPRI OR EPOLLET),
        FileWrite SYSFS_EXPORT_PATH (Decimal 27), FileOpen (SYSFS_GPIO_VALUE_PATH 27),
        FileWrite (SYSFS_GPIO_DIRECTION_PATH 27) (Chars ''in''),
        FileWrite (SYSFS_GPIO_EDGE_PATH 27) (Chars ''rising''),
        EpollRegister 127 (EPOLLPRI OR EPOLLET)]\<rparr>"
  unfolding new_board_def first_alloc
  by (simp add: run_defs board_defs inputs_board_def pin27_def)

end
